theory Spec2Isabelle
  imports Complex_Main "HOL-Library.AList"
begin

section \<open>JavaScript values\<close>

text \<open>
  A JavaScript number is modelled as an exact rational or \<open>NaN\<close>. The rounding error of
  binary64 arithmetic, overflow to the infinities and the sign of zero are not modelled:
  every arithmetic operation on finite operands is exact.
\<close>

datatype jsnum = Fin rat | NaN

fun js_add :: "jsnum \<Rightarrow> jsnum \<Rightarrow> jsnum" where
  "js_add (Fin a) (Fin b) = Fin (a + b)"
| "js_add _ _ = NaN"

fun js_sub :: "jsnum \<Rightarrow> jsnum \<Rightarrow> jsnum" where
  "js_sub (Fin a) (Fin b) = Fin (a - b)"
| "js_sub _ _ = NaN"

fun js_mul :: "jsnum \<Rightarrow> jsnum \<Rightarrow> jsnum" where
  "js_mul (Fin a) (Fin b) = Fin (a * b)"
| "js_mul _ _ = NaN"

text \<open>
  Division by zero gives an infinity or \<open>NaN\<close> in JavaScript. The program divides by the
  literal 100 and by a total revenue it has tested to be positive, so the zero divisor is
  never reached; the model returns \<open>NaN\<close> there.
\<close>

fun js_div :: "jsnum \<Rightarrow> jsnum \<Rightarrow> jsnum" where
  "js_div (Fin a) (Fin b) = (if b = 0 then NaN else Fin (a / b))"
| "js_div _ _ = NaN"

text \<open>The comparisons \<open><\<close> and \<open>>\<close>: false as soon as an operand is \<open>NaN\<close>.\<close>

fun js_lt :: "jsnum \<Rightarrow> jsnum \<Rightarrow> bool" where
  "js_lt (Fin a) (Fin b) = (a < b)"
| "js_lt _ _ = False"

definition js_gt :: "jsnum \<Rightarrow> jsnum \<Rightarrow> bool" where
  "js_gt a b = js_lt b a"

text \<open>\<open>Math.abs\<close> and \<open>Math.round\<close>; the latter is \<open>floor (x + 1/2)\<close>.\<close>

fun Math_abs :: "jsnum \<Rightarrow> jsnum" where
  "Math_abs (Fin a) = Fin \<bar>a\<bar>"
| "Math_abs NaN = NaN"

fun Math_round :: "jsnum \<Rightarrow> jsnum" where
  "Math_round (Fin a) = Fin (of_int \<lfloor>a + 1 / 2\<rfloor>)"
| "Math_round NaN = NaN"

text \<open>Truthiness of a number: zero and \<open>NaN\<close> are falsy.\<close>

fun truthy_num :: "jsnum \<Rightarrow> bool" where
  "truthy_num (Fin a) = (a \<noteq> 0)"
| "truthy_num NaN = False"

text \<open>
  A field of a JSON object received from the point-of-sale API: absent (\<open>Undefined\<close>),
  \<open>null\<close>, a boolean, a number or a string.
\<close>

datatype jsval = Undefined | Null | JBool bool | JNum jsnum | JStr string

fun truthy :: "jsval \<Rightarrow> bool" where
  "truthy Undefined = False"
| "truthy Null = False"
| "truthy (JBool b) = b"
| "truthy (JNum n) = truthy_num n"
| "truthy (JStr s) = (s \<noteq> [])"

text \<open>The operator \<open>a || b\<close>.\<close>

definition js_or :: "jsval \<Rightarrow> jsval \<Rightarrow> jsval" where
  "js_or a b = (if truthy a then a else b)"

section \<open>Strings and number parsing\<close>

definition is_space :: "char \<Rightarrow> bool" where
  "is_space c = (c \<in> set [CHR '' '', CHR 0x09, CHR 0x0A, CHR 0x0B, CHR 0x0C, CHR 0x0D])"

definition is_digit :: "char \<Rightarrow> bool" where
  "is_digit c = (c \<in> set ''0123456789'')"

definition digit_val :: "char \<Rightarrow> int" where
  "digit_val c = of_char c - 48"

definition digits_val :: "string \<Rightarrow> int" where
  "digits_val ds = foldl (\<lambda>a c. 10 * a + digit_val c) 0 ds"

text \<open>An optional sign in front of a numeral: whether it is negative, and the rest.\<close>

fun strip_sign :: "string \<Rightarrow> bool \<times> string" where
  "strip_sign [] = (False, [])"
| "strip_sign (c # cs) =
     (if c = CHR ''-'' then (True, cs) else if c = CHR ''+'' then (False, cs) else (False, c # cs))"

text \<open>The exponent part of a decimal literal, 0 when there is none.\<close>

fun parse_exponent :: "string \<Rightarrow> int" where
  "parse_exponent [] = 0"
| "parse_exponent (c # cs) =
     (if c = CHR ''e'' \<or> c = CHR ''E'' then
        (let (neg, r) = strip_sign cs; ds = takeWhile is_digit r
         in if ds = [] then 0 else if neg then - digits_val ds else digits_val ds)
      else 0)"

text \<open>
  \<open>parseFloat\<close> on a string: leading white space is skipped, then the longest prefix that is
  a decimal literal (sign, digits, fraction, exponent) is read; \<open>NaN\<close> when there is none.
  The literal \<open>Infinity\<close> has no value in the number model and gives \<open>NaN\<close> here; white
  space outside ASCII is not recognised, a \<open>char\<close> being a byte.
\<close>

definition parseFloat_str :: "string \<Rightarrow> jsnum" where
  "parseFloat_str s =
     (let (neg, s2) = strip_sign (dropWhile is_space s);
          ip = takeWhile is_digit s2;
          r1 = dropWhile is_digit s2;
          has_point = (r1 \<noteq> [] \<and> hd r1 = CHR ''.'');
          fp = (if has_point then takeWhile is_digit (tl r1) else []);
          r2 = (if has_point then dropWhile is_digit (tl r1) else r1)
      in if ip = [] \<and> fp = [] then NaN
         else let m = of_int (digits_val ip) + of_int (digits_val fp) / 10 ^ length fp;
                  e = parse_exponent r2;
                  v = (if 0 \<le> e then m * 10 ^ nat e else m / 10 ^ nat (- e))
              in Fin (if neg then - v else v))"

text \<open>
  \<open>parseFloat\<close> on a value converts it to a string first: a number prints and parses back
  to itself, while \<open>undefined\<close>, \<open>null\<close>, \<open>true\<close> and \<open>false\<close> print as words and give
  \<open>NaN\<close>.
\<close>

fun parseFloat :: "jsval \<Rightarrow> jsnum" where
  "parseFloat (JNum n) = n"
| "parseFloat (JStr s) = parseFloat_str s"
| "parseFloat _ = NaN"

text \<open>The result of \<open>parseInt\<close>: an integer or \<open>NaN\<close>.\<close>

datatype jsint = JInt int | IntNaN

definition is_hex_digit :: "char \<Rightarrow> bool" where
  "is_hex_digit c = (c \<in> set ''0123456789abcdefABCDEF'')"

definition hex_digit_val :: "char \<Rightarrow> int" where
  "hex_digit_val c =
     (if is_digit c then of_char c - 48
      else if c \<in> set ''abcdef'' then of_char c - 87 else of_char c - 55)"

definition hex_val :: "string \<Rightarrow> int" where
  "hex_val ds = foldl (\<lambda>a c. 16 * a + hex_digit_val c) 0 ds"

definition has_hex_prefix :: "string \<Rightarrow> bool" where
  "has_hex_prefix s = (take 2 s = ''0x'' \<or> take 2 s = ''0X'')"

text \<open>
  \<open>parseInt\<close> with no radix: white space, a sign, then hexadecimal digits after \<open>0x\<close> or
  decimal digits otherwise; \<open>NaN\<close> when no digit follows.
\<close>

definition parseInt :: "string \<Rightarrow> jsint" where
  "parseInt s =
     (let (neg, s2) = strip_sign (dropWhile is_space s);
          hex = has_hex_prefix s2;
          z = (if hex then takeWhile is_hex_digit (drop 2 s2) else takeWhile is_digit s2);
          v = (if hex then hex_val z else digits_val z)
      in if z = [] then IntNaN else JInt (if neg then - v else v))"

text \<open>
  Printing an integer, as a property key: plain decimal digits (an identifier is below
  \<open>10^21\<close> in size, where JavaScript switches to the exponent notation). \<open>digit_char\<close> is
  only applied to numbers below 10.
\<close>

definition digit_char :: "nat \<Rightarrow> char" where
  "digit_char d = ''0123456789'' ! d"

fun show_nat :: "nat \<Rightarrow> string" where
  "show_nat n = (if n < 10 then [digit_char n] else show_nat (n div 10) @ [digit_char (n mod 10)])"

declare show_nat.simps [simp del]

definition show_int :: "int \<Rightarrow> string" where
  "show_int i = (if i < 0 then CHR ''-'' # show_nat (nat (- i)) else show_nat (nat i))"

fun int_key :: "jsint \<Rightarrow> string" where
  "int_key (JInt i) = show_int i"
| "int_key IntNaN = ''NaN''"

text \<open>
  An employee identifier of an API record: missing (\<open>undefined\<close> or \<open>null\<close>), an integer or
  a string. The number 0 and the empty string are falsy.
\<close>

datatype jsid = NoId | IdNum int | IdStr string

fun truthy_id :: "jsid \<Rightarrow> bool" where
  "truthy_id NoId = False"
| "truthy_id (IdNum i) = (i \<noteq> 0)"
| "truthy_id (IdStr s) = (s \<noteq> [])"

definition id_or :: "jsid \<Rightarrow> jsid \<Rightarrow> jsid" where
  "id_or a b = (if truthy_id a then a else b)"

text \<open>
  The property key an identifier converts to when it indexes an object. A missing
  identifier gives \<open>undefined\<close> or \<open>null\<close>; the program uses such a key only to look up the
  maps of \<open>calculateSalaries\<close>, whose keys are printed integers or \<open>NaN\<close>, so the two
  behave alike and one constructor stands for both.
\<close>

fun id_key :: "jsid \<Rightarrow> string" where
  "id_key NoId = ''undefined''"
| "id_key (IdNum i) = show_int i"
| "id_key (IdStr s) = s"

section \<open>Objects used as dictionaries\<close>

text \<open>
  An object used as a dictionary is an association list in the order the properties were
  created; assigning to an existing property keeps its place. Property names that
  \<open>Object.prototype\<close> already defines (such as \<open>constructor\<close>) are outside the model.
  \<open>Object.keys\<close> lists the array indices (canonical numerals below \<open>2^32 - 1\<close>) first, in
  ascending order, then the other keys in creation order.
\<close>

definition is_array_index :: "string \<Rightarrow> bool" where
  "is_array_index k =
     (k \<noteq> [] \<and> list_all is_digit k \<and> (k = ''0'' \<or> hd k \<noteq> CHR ''0'')
      \<and> digits_val k < 4294967295)"

definition Object_keys :: "(string \<times> 'a) list \<Rightarrow> string list" where
  "Object_keys obj =
     (let ks = map fst obj
      in sort_key digits_val (filter is_array_index ks) @ filter (\<lambda>k. \<not> is_array_index k) ks)"

text \<open>A \<open>Set\<close> of strings in insertion order, and \<open>Set.add\<close>.\<close>

definition set_add :: "string \<Rightarrow> string list \<Rightarrow> string list" where
  "set_add x xs = (if x \<in> set xs then xs else xs @ [x])"

section \<open>Fetching from the point-of-sale API\<close>

text \<open>
  A request either throws or returns a body whose \<open>response\<close> field is an array of
  records or is missing (\<open>None\<close>, for which the program substitutes the empty array). The
  outcomes of the three requests are inputs of the model; the account, the token and the
  date range that the program computes only select what is requested.
\<close>

datatype error = RequestFailed | TypeError | CalculationFailed

type_synonym 'a fetched = "error + 'a list option"

record transaction =
  user_id :: jsid
  staff_id :: jsid
  date_close :: jsval
  date :: jsval
  total_t :: jsval

definition getTransactions :: "transaction fetched \<Rightarrow> error + transaction list" where
  "getTransactions f =
     (case f of Inl e \<Rightarrow> Inl e | Inr None \<Rightarrow> Inr [] | Inr (Some ts) \<Rightarrow> Inr ts)"

section \<open>Revenue and shifts per employee\<close>

record aggregate =
  employeeId_agg :: jsint
  revenue_agg :: jsnum
  shiftsCount_agg :: nat

type_synonym revenue_obj = "(string \<times> jsnum) list"
type_synonym shifts_obj = "(string \<times> string list) list"

text \<open>\<open>transactionDate.split(' ')[0]\<close>.\<close>

definition dateOnly :: "string \<Rightarrow> string" where
  "dateOnly s = takeWhile (\<lambda>c. c \<noteq> CHR '' '') s"

text \<open>
  The two statements on the revenue of one employee: the entry is set to 0 when it is
  missing or falsy (\<open>undefined\<close>, 0 or \<open>NaN\<close>), then \<open>parseFloat(transaction.total || 0)\<close>
  is added to it.
\<close>

definition add_revenue :: "jsnum option \<Rightarrow> jsval \<Rightarrow> jsnum" where
  "add_revenue cur tot =
     js_add (case cur of None \<Rightarrow> Fin 0 | Some v \<Rightarrow> if truthy_num v then v else Fin 0)
            (parseFloat (js_or tot (JNum (Fin 0))))"

text \<open>The set of dates of one employee, created empty when it is missing.\<close>

definition dates_of :: "string list option \<Rightarrow> string list" where
  "dates_of cur = (case cur of None \<Rightarrow> [] | Some ds \<Rightarrow> ds)"

text \<open>
  The body of the loop over the transactions. Calling \<open>split\<close> on a date that is not a
  string throws a \<open>TypeError\<close>, which ends \<open>getEmployeeRevenue\<close>: what the iteration
  had already written is lost with it.
\<close>

fun tx_step :: "transaction \<Rightarrow> revenue_obj \<times> shifts_obj \<Rightarrow> error + revenue_obj \<times> shifts_obj" where
  "tx_step t (revenueByEmployee, shiftsByEmployee) =
     (let employeeId = id_or (user_id t) (staff_id t);
          transactionDate = js_or (date_close t) (date t)
      in if \<not> truthy_id employeeId then Inr (revenueByEmployee, shiftsByEmployee)
         else
           let k = id_key employeeId;
               revenueByEmployee' =
                 AList.update k (add_revenue (map_of revenueByEmployee k) (total_t t))
                   revenueByEmployee;
               dates = dates_of (map_of shiftsByEmployee k)
           in case transactionDate of
                JStr s \<Rightarrow>
                  Inr (revenueByEmployee',
                       AList.update k (set_add (dateOnly s) dates) shiftsByEmployee)
              | _ \<Rightarrow> Inl TypeError)"

fun forEach_tx :: "transaction list \<Rightarrow> revenue_obj \<times> shifts_obj \<Rightarrow> error + revenue_obj \<times> shifts_obj" where
  "forEach_tx [] st = Inr st"
| "forEach_tx (t # ts) st =
     (case tx_step t st of Inl e \<Rightarrow> Inl e | Inr st' \<Rightarrow> forEach_tx ts st')"

text \<open>
  One element of the result. The key is an own key of \<open>revenueByEmployee\<close>; reading
  \<open>size\<close> of a missing set would throw.
\<close>

definition make_aggregate :: "revenue_obj \<Rightarrow> shifts_obj \<Rightarrow> string \<Rightarrow> error + aggregate" where
  "make_aggregate revenueByEmployee shiftsByEmployee k =
     (case map_of shiftsByEmployee k of
        None \<Rightarrow> Inl TypeError
      | Some ds \<Rightarrow>
          Inr \<lparr> employeeId_agg = parseInt k,
                revenue_agg = (case map_of revenueByEmployee k of Some v \<Rightarrow> v | None \<Rightarrow> NaN),
                shiftsCount_agg = length ds \<rparr>)"

fun map_err :: "('a \<Rightarrow> error + 'b) \<Rightarrow> 'a list \<Rightarrow> error + 'b list" where
  "map_err f [] = Inr []"
| "map_err f (x # xs) =
     (case f x of Inl e \<Rightarrow> Inl e
      | Inr y \<Rightarrow> (case map_err f xs of Inl e \<Rightarrow> Inl e | Inr ys \<Rightarrow> Inr (y # ys)))"

definition getEmployeeRevenue :: "transaction fetched \<Rightarrow> error + aggregate list" where
  "getEmployeeRevenue f =
     (case getTransactions f of
        Inl e \<Rightarrow> Inl e
      | Inr transactions \<Rightarrow>
          (case forEach_tx transactions ([], []) of
             Inl e \<Rightarrow> Inl e
           | Inr (revenueByEmployee, shiftsByEmployee) \<Rightarrow>
               map_err (make_aggregate revenueByEmployee shiftsByEmployee)
                 (Object_keys revenueByEmployee)))"

section \<open>Parameter validation\<close>

text \<open>
  The parameters of a calculation. The account and the access token are strings or missing;
  the numeric parameters are numbers or \<open>undefined\<close> (\<open>None\<close>), as the controller passes the
  results of \<open>parseInt\<close> and \<open>parseFloat\<close>.
\<close>

record params =
  account :: "string option"
  accessToken :: "string option"
  month :: "jsnum option"
  year :: "jsnum option"
  inventoryMonth :: "jsnum option"
  inventoryYear :: "jsnum option"
  shiftRate :: "jsnum option"
  revenuePercent :: "jsnum option"

text \<open>\<open>!s\<close> for a string or a missing value, \<open>!n\<close> and \<open>n < c\<close>, \<open>n > c\<close> for a number or
  \<open>undefined\<close> (which converts to \<open>NaN\<close> in a comparison).\<close>

fun not_str :: "string option \<Rightarrow> bool" where
  "not_str None = True"
| "not_str (Some s) = (s = [])"

fun to_num :: "jsnum option \<Rightarrow> jsnum" where
  "to_num None = NaN"
| "to_num (Some n) = n"

fun not_num :: "jsnum option \<Rightarrow> bool" where
  "not_num None = True"
| "not_num (Some n) = (\<not> truthy_num n)"

record validation =
  isValid :: bool
  errors :: "string list"

definition account_rule :: "params \<Rightarrow> bool" where
  "account_rule p = not_str (account p)"

definition token_rule :: "params \<Rightarrow> bool" where
  "token_rule p = not_str (accessToken p)"

definition month_rule :: "params \<Rightarrow> bool" where
  "month_rule p =
     (not_num (month p) \<or> js_lt (to_num (month p)) (Fin 1) \<or> js_gt (to_num (month p)) (Fin 12))"

definition year_rule :: "params \<Rightarrow> bool" where
  "year_rule p = (not_num (year p) \<or> js_lt (to_num (year p)) (Fin 2000))"

definition shiftRate_rule :: "params \<Rightarrow> bool" where
  "shiftRate_rule p = (shiftRate p = None \<or> js_lt (to_num (shiftRate p)) (Fin 0))"

definition revenuePercent_rule :: "params \<Rightarrow> bool" where
  "revenuePercent_rule p =
     (revenuePercent p = None \<or> js_lt (to_num (revenuePercent p)) (Fin 0)
      \<or> js_gt (to_num (revenuePercent p)) (Fin 100))"

text \<open>\<open>errors.push(msg)\<close> under a condition.\<close>

definition push_if :: "bool \<Rightarrow> string \<Rightarrow> string list \<Rightarrow> string list" where
  "push_if c msg errs = (if c then errs @ [msg] else errs)"

definition validateCalculationParams :: "params \<Rightarrow> validation" where
  "validateCalculationParams p =
     (let errs0 = [];
          errs1 = push_if (account_rule p) ''Account is required'' errs0;
          errs2 = push_if (token_rule p) ''Access token is required'' errs1;
          errs3 = push_if (month_rule p) ''Invalid month (must be 1-12)'' errs2;
          errs4 = push_if (year_rule p) ''Invalid year'' errs3;
          errs5 = push_if (shiftRate_rule p) ''Invalid shift rate'' errs4;
          errs6 = push_if (revenuePercent_rule p) ''Invalid revenue percent (must be 0-100)'' errs5
      in \<lparr> isValid = (length errs6 = 0), errors = errs6 \<rparr>)"

text \<open>The parameters of the example: account and token present, the four numbers out of range.\<close>

definition bad_params :: params where
  "bad_params =
     \<lparr> account = Some ''demo'', accessToken = Some ''token'',
       month = Some (Fin 13), year = Some (Fin 1999),
       inventoryMonth = Some (Fin 13), inventoryYear = Some (Fin 1999),
       shiftRate = Some (Fin (- 1)), revenuePercent = Some (Fin 150) \<rparr>"

section \<open>Employees and inventory results\<close>

record employee =
  user_id_emp :: jsid
  id_emp :: jsid
  name_emp :: jsval
  user_name_emp :: jsval

definition getEmployees :: "employee fetched \<Rightarrow> error + employee list" where
  "getEmployees f =
     (case f of Inl e \<Rightarrow> Inl e | Inr None \<Rightarrow> Inr [] | Inr (Some es) \<Rightarrow> Inr es)"

record revision =
  difference :: jsval

record inventoryResults =
  month_inv :: "jsnum option"
  year_inv :: "jsnum option"
  totalLoss :: jsnum
  revisionsCount :: nat
  revisions :: "revision list"

text \<open>
  The request and the summation are inside a \<open>try\<close> block: a failed request gives the
  neutral result of the \<open>catch\<close> branch.
\<close>

definition getInventoryResults ::
  "revision fetched \<Rightarrow> jsnum option \<Rightarrow> jsnum option \<Rightarrow> inventoryResults" where
  "getInventoryResults f m y =
     (case f of
        Inl e \<Rightarrow>
          \<lparr> month_inv = m, year_inv = y, totalLoss = Fin 0, revisionsCount = 0, revisions = [] \<rparr>
      | Inr body \<Rightarrow>
          (let revs = (case body of None \<Rightarrow> [] | Some rs \<Rightarrow> rs);
               loss = foldl (\<lambda>acc r. js_add acc (parseFloat (js_or (difference r) (JNum (Fin 0)))))
                        (Fin 0) revs
           in \<lparr> month_inv = m, year_inv = y, totalLoss = loss,
                revisionsCount = length revs, revisions = revs \<rparr>))"

section \<open>The salary calculation\<close>

record salaryLine =
  employeeId :: jsid
  employeeName :: jsval
  shiftsCount :: nat
  revenue :: jsnum
  baseSalary :: jsnum
  revenueBonus :: jsnum
  inventoryDeduction :: jsnum
  totalSalary :: jsnum

record period_rec =
  month_p :: "jsnum option"
  year_p :: "jsnum option"
  monthName :: string

record parameters_rec =
  shiftRate_par :: "jsnum option"
  revenuePercent_par :: "jsnum option"

record inventory_rec =
  month_i :: "jsnum option"
  year_i :: "jsnum option"
  totalLoss_i :: jsnum
  revisionsCount_i :: nat

record summary_rec =
  employeesCount :: nat
  totalRevenue :: jsnum
  totalBaseSalary :: jsnum
  totalRevenueBonus :: jsnum
  totalInventoryDeduction :: jsnum
  totalSalary_s :: jsnum

record report =
  success :: bool
  period :: period_rec
  parameters :: parameters_rec
  inventory :: inventory_rec
  summary :: summary_rec
  employees :: "salaryLine list"

text \<open>The month names and the placeholders, transliterated to ASCII.\<close>

definition months :: "string list" where
  "months = [''Sichen'', ''Liutyi'', ''Berezen'', ''Kviten'', ''Traven'', ''Cherven'',
             ''Lypen'', ''Serpen'', ''Veresen'', ''Zhovten'', ''Lystopad'', ''Hruden'']"

definition getMonthName :: "jsnum option \<Rightarrow> string" where
  "getMonthName m =
     (case m of
        Some (Fin r) \<Rightarrow>
          if r = of_int \<lfloor>r\<rfloor> \<and> 1 \<le> r \<and> r \<le> 12 then months ! nat (\<lfloor>r\<rfloor> - 1)
          else ''Nevidomyi misiats''
      | _ \<Rightarrow> ''Nevidomyi misiats'')"

definition unknown_name :: string where
  "unknown_name = ''Nevidomyi''"

text \<open>\<open>Math.round(x * 100) / 100\<close>.\<close>

definition round2 :: "jsnum \<Rightarrow> jsnum" where
  "round2 x = js_div (Math_round (js_mul x (Fin 100))) (Fin 100)"

text \<open>The two maps built from the revenue data; a later entry overwrites an earlier one
  with the same key.\<close>

definition build_revenueMap :: "aggregate list \<Rightarrow> (string \<times> jsnum) list" where
  "build_revenueMap revenueData =
     foldl (\<lambda>m d. AList.update (int_key (employeeId_agg d)) (revenue_agg d) m) [] revenueData"

definition build_shiftsMap :: "aggregate list \<Rightarrow> (string \<times> nat) list" where
  "build_shiftsMap revenueData =
     foldl (\<lambda>m d. AList.update (int_key (employeeId_agg d)) (shiftsCount_agg d) m) [] revenueData"

definition sum_revenue :: "aggregate list \<Rightarrow> jsnum" where
  "sum_revenue revenueData = foldl (\<lambda>sum d. js_add sum (revenue_agg d)) (Fin 0) revenueData"

text \<open>\<open>shiftsMap[employeeId] || 0\<close> and \<open>revenueMap[employeeId] || 0\<close>.\<close>

definition lookup_shifts :: "(string \<times> nat) list \<Rightarrow> jsid \<Rightarrow> nat" where
  "lookup_shifts shiftsMap eid =
     (case map_of shiftsMap (id_key eid) of None \<Rightarrow> 0 | Some n \<Rightarrow> n)"

definition lookup_revenue :: "(string \<times> jsnum) list \<Rightarrow> jsid \<Rightarrow> jsnum" where
  "lookup_revenue revenueMap eid =
     (case map_of revenueMap (id_key eid) of
        None \<Rightarrow> Fin 0
      | Some v \<Rightarrow> if truthy_num v then v else Fin 0)"

text \<open>The share of the inventory shortage of one employee, before rounding.\<close>

definition deduction :: "jsnum \<Rightarrow> jsnum \<Rightarrow> jsnum \<Rightarrow> jsnum" where
  "deduction loss totalRev empRev =
     (if js_lt loss (Fin 0) \<and> js_gt totalRev (Fin 0)
      then js_mul (Math_abs loss) (js_div empRev totalRev)
      else Fin 0)"

definition salary_line ::
  "jsnum \<Rightarrow> jsnum \<Rightarrow> jsnum \<Rightarrow> jsnum \<Rightarrow> (string \<times> jsnum) list \<Rightarrow> (string \<times> nat) list
   \<Rightarrow> employee \<Rightarrow> salaryLine" where
  "salary_line rate percent loss totalRev revenueMap shiftsMap emp =
     (let eid = id_or (user_id_emp emp) (id_emp emp);
          ename = js_or (name_emp emp) (js_or (user_name_emp emp) (JStr unknown_name));
          shifts = lookup_shifts shiftsMap eid;
          empRev = lookup_revenue revenueMap eid;
          base = js_mul (Fin (of_nat shifts)) rate;
          bonus = js_mul empRev (js_div percent (Fin 100));
          ded = deduction loss totalRev empRev;
          tot = js_sub (js_add base bonus) ded
      in \<lparr> employeeId = eid, employeeName = ename, shiftsCount = shifts,
           revenue = round2 empRev, baseSalary = round2 base, revenueBonus = round2 bonus,
           inventoryDeduction = round2 ded, totalSalary = round2 tot \<rparr>)"

text \<open>
  \<open>Array.prototype.sort\<close> with a comparison function is stable, and a comparison result
  of \<open>NaN\<close> counts as 0. It is modelled by a stable insertion sort: an element goes in
  front of the first element that the comparison does not put strictly before it.
\<close>

fun insert_sorted :: "('a \<Rightarrow> 'a \<Rightarrow> jsnum) \<Rightarrow> 'a \<Rightarrow> 'a list \<Rightarrow> 'a list" where
  "insert_sorted cmp x [] = [x]"
| "insert_sorted cmp x (y # ys) =
     (if js_lt (cmp y x) (Fin 0) then y # insert_sorted cmp x ys else x # y # ys)"

definition Array_sort :: "('a \<Rightarrow> 'a \<Rightarrow> jsnum) \<Rightarrow> 'a list \<Rightarrow> 'a list" where
  "Array_sort cmp xs = foldr (insert_sorted cmp) xs []"

definition by_salary :: "salaryLine \<Rightarrow> salaryLine \<Rightarrow> jsnum" where
  "by_salary a b = js_sub (totalSalary b) (totalSalary a)"

definition sum_field :: "(salaryLine \<Rightarrow> jsnum) \<Rightarrow> salaryLine list \<Rightarrow> jsnum" where
  "sum_field f es = foldl (\<lambda>sum e. js_add sum (f e)) (Fin 0) es"

text \<open>Steps 3 to 7 of \<open>calculateSalaries\<close>, once the three fetches have returned.\<close>

definition salaryResults ::
  "params \<Rightarrow> employee list \<Rightarrow> aggregate list \<Rightarrow> inventoryResults \<Rightarrow> salaryLine list" where
  "salaryResults p emps revenueData invRes =
     map (salary_line (to_num (shiftRate p)) (to_num (revenuePercent p)) (totalLoss invRes)
            (sum_revenue revenueData) (build_revenueMap revenueData)
            (build_shiftsMap revenueData)) emps"

definition build_report ::
  "params \<Rightarrow> employee list \<Rightarrow> aggregate list \<Rightarrow> inventoryResults \<Rightarrow> report" where
  "build_report p emps revenueData invRes =
     (let workingEmployees =
            filter (\<lambda>emp. 0 < shiftsCount emp) (salaryResults p emps revenueData invRes)
      in \<lparr> success = True,
           period = \<lparr> month_p = month p, year_p = year p, monthName = getMonthName (month p) \<rparr>,
           parameters = \<lparr> shiftRate_par = shiftRate p, revenuePercent_par = revenuePercent p \<rparr>,
           inventory = \<lparr> month_i = inventoryMonth p, year_i = inventoryYear p,
                         totalLoss_i = round2 (totalLoss invRes),
                         revisionsCount_i = revisionsCount invRes \<rparr>,
           summary = \<lparr> employeesCount = length workingEmployees,
                       totalRevenue = round2 (sum_revenue revenueData),
                       totalBaseSalary = round2 (sum_field baseSalary workingEmployees),
                       totalRevenueBonus = round2 (sum_field revenueBonus workingEmployees),
                       totalInventoryDeduction =
                         round2 (sum_field inventoryDeduction workingEmployees),
                       totalSalary_s = round2 (sum_field totalSalary workingEmployees) \<rparr>,
           employees = Array_sort by_salary workingEmployees \<rparr>)"

text \<open>
  \<open>calculateSalaries\<close>: the three fetches are awaited together; when the employee or the
  transaction fetch fails the function throws its own error, while a failed inventory
  fetch has already been replaced by the neutral result.
\<close>

definition calculateSalaries ::
  "params \<Rightarrow> employee fetched \<Rightarrow> transaction fetched \<Rightarrow> revision fetched \<Rightarrow> error + report" where
  "calculateSalaries p fe ft fi =
     (case getEmployees fe of
        Inl e \<Rightarrow> Inl CalculationFailed
      | Inr emps \<Rightarrow>
          (case getEmployeeRevenue ft of
             Inl e \<Rightarrow> Inl CalculationFailed
           | Inr revenueData \<Rightarrow>
               Inr (build_report p emps revenueData
                      (getInventoryResults fi (inventoryMonth p) (inventoryYear p)))))"

section \<open>Notions used in the statements\<close>























section \<open>Example inputs\<close>

definition example_params :: "rat \<Rightarrow> rat \<Rightarrow> params" where
  "example_params rate percent =
     \<lparr> account = Some ''demo'', accessToken = Some ''token'',
       month = Some (Fin 2), year = Some (Fin 2023),
       inventoryMonth = Some (Fin 2), inventoryYear = Some (Fin 2023),
       shiftRate = Some (Fin rate), revenuePercent = Some (Fin percent) \<rparr>"

definition example_employee :: "int \<Rightarrow> string \<Rightarrow> employee" where
  "example_employee i n =
     \<lparr> user_id_emp = IdNum i, id_emp = NoId, name_emp = JStr n, user_name_emp = Undefined \<rparr>"

definition example_tx :: "jsid \<Rightarrow> string \<Rightarrow> jsval \<Rightarrow> transaction" where
  "example_tx u d t =
     \<lparr> user_id = u, staff_id = NoId, date_close = JStr d, date = Undefined, total_t = t \<rparr>"






text \<open>Two employees, of whom only the first has sales, and a shortage of 1000.\<close>

definition ex_employees :: "employee fetched" where
  "ex_employees = Inr (Some [example_employee 1 ''A'', example_employee 2 ''B''])"


definition ex_transactions :: "transaction fetched" where
  "ex_transactions =
     Inr (Some [example_tx (IdStr ''1'') ''2023-02-01 10:00:00'' (JStr ''20000'')])"


definition ex_inventory :: "revision fetched" where
  "ex_inventory = Inr (Some [\<lparr> difference = JStr ''-1000'' \<rparr>])"

definition ex_line_A :: salaryLine where
  "ex_line_A = \<lparr> employeeId = IdNum 1, employeeName = JStr ''A'', shiftsCount = 1,
                 revenue = Fin 20000, baseSalary = Fin 500, revenueBonus = Fin 1000,
                 inventoryDeduction = Fin 1000, totalSalary = Fin 500 \<rparr>"

definition ex_line_B :: salaryLine where
  "ex_line_B = \<lparr> employeeId = IdNum 2, employeeName = JStr ''B'', shiftsCount = 0,
                 revenue = Fin 0, baseSalary = Fin 0, revenueBonus = Fin 0,
                 inventoryDeduction = Fin 0, totalSalary = Fin 0 \<rparr>"

text \<open>
  Three employees with one shift each and revenues 100, 300 and 100; no inventory
  revision.
\<close>

definition ex3_employees :: "employee fetched" where
  "ex3_employees =
     Inr (Some [example_employee 1 ''A'', example_employee 2 ''B'', example_employee 3 ''C''])"

definition ex3_transactions :: "transaction fetched" where
  "ex3_transactions =
     Inr (Some [example_tx (IdStr ''1'') ''2023-02-01 10:00:00'' (JStr ''100''),
                example_tx (IdStr ''2'') ''2023-02-01 11:00:00'' (JStr ''300''),
                example_tx (IdStr ''3'') ''2023-02-01 12:00:00'' (JStr ''100'')])"

definition ex3_line :: "int \<Rightarrow> string \<Rightarrow> rat \<Rightarrow> rat \<Rightarrow> rat \<Rightarrow> salaryLine" where
  "ex3_line i n r b t =
     \<lparr> employeeId = IdNum i, employeeName = JStr n, shiftsCount = 1,
       revenue = Fin r, baseSalary = Fin 500, revenueBonus = Fin b,
       inventoryDeduction = Fin 0, totalSalary = Fin t \<rparr>"










section \<open>Validation collects every violated rule\<close>

lemma set_push_if: "set (push_if c msg errs) = (if c then insert msg (set errs) else set errs)"
  by (simp add: push_if_def)

lemma length_push_if: "length (push_if c msg errs) = length errs + (if c then 1 else 0)"
  by (simp add: push_if_def)

lemma errors_set:
  "set (errors (validateCalculationParams p)) =
     (if account_rule p then {''Account is required''} else {}) \<union>
     (if token_rule p then {''Access token is required''} else {}) \<union>
     (if month_rule p then {''Invalid month (must be 1-12)''} else {}) \<union>
     (if year_rule p then {''Invalid year''} else {}) \<union>
     (if shiftRate_rule p then {''Invalid shift rate''} else {}) \<union>
     (if revenuePercent_rule p then {''Invalid revenue percent (must be 0-100)''} else {})"
  unfolding validateCalculationParams_def Let_def
  by (simp only: validation.simps set_push_if) auto

lemma errors_length:
  "length (errors (validateCalculationParams p)) =
     (if account_rule p then 1 else 0) + (if token_rule p then 1 else 0) +
     (if month_rule p then 1 else 0) + (if year_rule p then 1 else 0) +
     (if shiftRate_rule p then 1 else 0) + (if revenuePercent_rule p then (1::nat) else 0)"
  unfolding validateCalculationParams_def Let_def
  by (simp add: length_push_if)

lemma bad_params_errors:
  "errors (validateCalculationParams bad_params) =
     [''Invalid month (must be 1-12)'', ''Invalid year'', ''Invalid shift rate'',
      ''Invalid revenue percent (must be 0-100)'']"
  by (simp add: validateCalculationParams_def bad_params_def push_if_def account_rule_def
      token_rule_def month_rule_def year_rule_def shiftRate_rule_def revenuePercent_rule_def
      js_gt_def)

text \<open>
  Claim C7. \<open>validateCalculationParams\<close> reports every violated rule, not only the first:
  the message of a rule is in the error list exactly when the rule is violated, the list
  has one entry per violated rule, and the result is valid exactly when the list is empty.
  For the parameters with account and token present, month 13, year 1999, shift rate -1 and
  revenue percent 150 the result is invalid with exactly four pairwise distinct messages.
\<close>

theorem validate_collects_all_errors:
  "(''Account is required'' \<in> set (errors (validateCalculationParams p))) = account_rule p
   \<and> (''Access token is required'' \<in> set (errors (validateCalculationParams p))) = token_rule p
   \<and> (''Invalid month (must be 1-12)'' \<in> set (errors (validateCalculationParams p))) = month_rule p
   \<and> (''Invalid year'' \<in> set (errors (validateCalculationParams p))) = year_rule p
   \<and> (''Invalid shift rate'' \<in> set (errors (validateCalculationParams p))) = shiftRate_rule p
   \<and> (''Invalid revenue percent (must be 0-100)'' \<in> set (errors (validateCalculationParams p)))
        = revenuePercent_rule p
   \<and> length (errors (validateCalculationParams p)) =
        length (filter id [account_rule p, token_rule p, month_rule p, year_rule p,
                           shiftRate_rule p, revenuePercent_rule p])
   \<and> isValid (validateCalculationParams p) = (errors (validateCalculationParams p) = [])
   \<and> isValid (validateCalculationParams bad_params) = False
   \<and> length (errors (validateCalculationParams bad_params)) = 4
   \<and> distinct (errors (validateCalculationParams bad_params))"
proof -
  have valid: "isValid (validateCalculationParams p) = (errors (validateCalculationParams p) = [])"
    by (simp add: validateCalculationParams_def Let_def)
  have bad_valid: "isValid (validateCalculationParams bad_params) = False"
    using bad_params_errors by (simp add: validateCalculationParams_def Let_def)
  show ?thesis
    unfolding valid bad_valid
    by (simp add: errors_set errors_length bad_params_errors)
qed

section \<open>The report: sorting and filtering\<close>

lemma calculateSalaries_Inr:
  "calculateSalaries p fe ft fi = Inr r \<Longrightarrow>
     \<exists>emps rd. getEmployees fe = Inr emps \<and> getEmployeeRevenue ft = Inr rd \<and>
       r = build_report p emps rd (getInventoryResults fi (inventoryMonth p) (inventoryYear p))"
  by (auto simp: calculateSalaries_def split: sum.splits)

lemma calculateSalaries_ok:
  "getEmployees fe = Inr emps \<Longrightarrow> getEmployeeRevenue ft = Inr rd \<Longrightarrow>
     calculateSalaries p fe ft fi =
       Inr (build_report p emps rd (getInventoryResults fi (inventoryMonth p) (inventoryYear p)))"
  by (simp add: calculateSalaries_def)

lemma employees_build_report:
  "employees (build_report p emps rd invRes) =
     Array_sort by_salary (filter (\<lambda>l. 0 < shiftsCount l) (salaryResults p emps rd invRes))"
  by (simp add: build_report_def Let_def)

lemma set_insert_sorted: "set (insert_sorted cmp x ys) = insert x (set ys)"
  by (induction ys) auto

lemma set_Array_sort: "set (Array_sort cmp xs) = set xs"
  by (induction xs) (simp_all add: Array_sort_def set_insert_sorted)

lemma length_insert_sorted: "length (insert_sorted cmp x ys) = Suc (length ys)"
  by (induction ys) auto

lemma length_Array_sort: "length (Array_sort cmp xs) = length xs"
  by (induction xs) (simp_all add: Array_sort_def length_insert_sorted)








lemma round2_Fin: "round2 (Fin x) = Fin (of_int \<lfloor>x * 100 + 1 / 2\<rfloor> / 100)"
  by (simp add: round2_def)







section \<open>Rounding to the cent\<close>

lemma floor_one_half: "\<lfloor>1 / 2 :: rat\<rfloor> = 0"
  by (rule floor_unique) simp_all





section \<open>Employees without shifts\<close>

text \<open>
  Claim C5. When the employee and the transaction fetches succeed, \<open>calculateSalaries\<close>
  returns a report in which every line has \<open>shiftsCount > 0\<close>, and a line computed for an
  employee of the input list is in the report exactly when its \<open>shiftsCount\<close> is positive:
  an employee with no shift is absent, whatever the revenue.
\<close>

theorem zero_shift_employees_absent:
  assumes "getEmployees fe = Inr emps" and "getEmployeeRevenue ft = Inr rd"
  shows "\<exists>r. calculateSalaries p fe ft fi = Inr r
           \<and> (\<forall>l\<in>set (employees r). 0 < shiftsCount l)
           \<and> (\<forall>l\<in>set (salaryResults p emps rd
                          (getInventoryResults fi (inventoryMonth p) (inventoryYear p))).
                 (l \<in> set (employees r)) = (0 < shiftsCount l))"
  by (simp add: calculateSalaries_ok [OF assms] employees_build_report set_Array_sort)

theorem zero_shift_employees_absent_witness:
  "getEmployees ex_employees = Inr [example_employee 1 ''A'', example_employee 2 ''B'']
   \<and> getEmployeeRevenue ex_transactions
       = Inr [\<lparr> employeeId_agg = JInt 1, revenue_agg = Fin 20000, shiftsCount_agg = 1 \<rparr>]
   \<and> map_sum id employees
        (calculateSalaries (example_params 500 5) ex_employees ex_transactions ex_inventory)
       = Inr [ex_line_A]
   \<and> 0 < shiftsCount ex_line_A \<and> shiftsCount ex_line_B = 0"
proof -
  have h1: "getEmployees ex_employees = Inr [example_employee 1 ''A'', example_employee 2 ''B'']"
    by code_simp
  have h2: "getEmployeeRevenue ex_transactions
              = Inr [\<lparr> employeeId_agg = JInt 1, revenue_agg = Fin 20000, shiftsCount_agg = 1 \<rparr>]"
    by code_simp
  have lines: "salaryResults (example_params 500 5)
                 [example_employee 1 ''A'', example_employee 2 ''B'']
                 [\<lparr> employeeId_agg = JInt 1, revenue_agg = Fin 20000, shiftsCount_agg = 1 \<rparr>]
                 (getInventoryResults ex_inventory (inventoryMonth (example_params 500 5))
                    (inventoryYear (example_params 500 5)))
               = [ex_line_A, ex_line_B]"
    by code_simp
  obtain r where r: "calculateSalaries (example_params 500 5) ex_employees ex_transactions
                       ex_inventory = Inr r"
    and pos: "\<forall>l\<in>set (employees r). 0 < shiftsCount l"
    and iff: "\<forall>l\<in>set [ex_line_A, ex_line_B]. (l \<in> set (employees r)) = (0 < shiftsCount l)"
    using zero_shift_employees_absent [OF h1 h2, of "example_params 500 5" ex_inventory]
    unfolding lines by blast
  have ev: "map_sum id employees
              (calculateSalaries (example_params 500 5) ex_employees ex_transactions ex_inventory)
             = Inr [ex_line_A]"
    by code_simp
  then have "employees r = [ex_line_A]" unfolding r by simp
  with pos have a: "0 < shiftsCount ex_line_A" by simp
  have "ex_line_B \<notin> set (employees r)" unfolding \<open>employees r = [ex_line_A]\<close>
    by (simp add: ex_line_A_def ex_line_B_def)
  with iff have b: "shiftsCount ex_line_B = 0" by simp
  show ?thesis using h1 h2 ev a b by blast
qed

section \<open>Order of the report and the total of a line\<close>









section \<open>Rounding of the fields and the inventory fallback\<close>







lemma deduction_zero_loss: "deduction (Fin 0) T v = Fin 0"
  by (simp add: deduction_def)

lemma round2_zero: "round2 (Fin 0) = Fin 0"
  by (simp add: round2_Fin floor_one_half)

lemma getInventoryResults_failed:
  "getInventoryResults (Inl e) m y = getInventoryResults (Inr (Some [])) m y"
  by (simp add: getInventoryResults_def)

text \<open>
  Claim C8. A failed inventory request is not propagated: \<open>getInventoryResults\<close> returns
  a result with \<open>totalLoss = 0\<close> and \<open>revisionsCount = 0\<close>. \<open>calculateSalaries\<close> then returns
  what it returns for an inventory without revisions; it succeeds exactly when the employee
  and the transaction fetches succeed, and its report shows a loss of 0, no revision and an
  \<open>inventoryDeduction\<close> of 0 on every line.
\<close>

theorem inventory_failure_is_neutral:
  "totalLoss (getInventoryResults (Inl e) m y) = Fin 0
   \<and> revisionsCount (getInventoryResults (Inl e) m y) = 0
   \<and> calculateSalaries p fe ft (Inl e) = calculateSalaries p fe ft (Inr (Some []))
   \<and> ((\<exists>r. calculateSalaries p fe ft (Inl e) = Inr r)
        = ((\<exists>emps. getEmployees fe = Inr emps) \<and> (\<exists>rd. getEmployeeRevenue ft = Inr rd)))
   \<and> (\<forall>r. calculateSalaries p fe ft (Inl e) = Inr r \<longrightarrow>
          totalLoss_i (inventory r) = Fin 0 \<and> revisionsCount_i (inventory r) = 0
          \<and> (\<forall>l\<in>set (employees r). inventoryDeduction l = Fin 0))"
proof -
  have a: "totalLoss (getInventoryResults (Inl e) m y) = Fin 0"
    and b: "revisionsCount (getInventoryResults (Inl e) m y) = 0"
    by (simp_all add: getInventoryResults_def)
  have c: "calculateSalaries p fe ft (Inl e) = calculateSalaries p fe ft (Inr (Some []))"
    unfolding calculateSalaries_def getInventoryResults_failed by (rule refl)
  have d: "(\<exists>r. calculateSalaries p fe ft (Inl e) = Inr r)
        = ((\<exists>emps. getEmployees fe = Inr emps) \<and> (\<exists>rd. getEmployeeRevenue ft = Inr rd))"
    by (auto simp: calculateSalaries_def split: sum.splits)
  have f: "\<forall>r. calculateSalaries p fe ft (Inl e) = Inr r \<longrightarrow>
          totalLoss_i (inventory r) = Fin 0 \<and> revisionsCount_i (inventory r) = 0
          \<and> (\<forall>l\<in>set (employees r). inventoryDeduction l = Fin 0)"
  proof (intro allI impI)
    fix r assume r: "calculateSalaries p fe ft (Inl e) = Inr r"
    then obtain emps rd where
      r': "r = build_report p emps rd (getInventoryResults (Inl e) (inventoryMonth p) (inventoryYear p))"
      using calculateSalaries_Inr by blast
    have "\<forall>l\<in>set (employees r). inventoryDeduction l = Fin 0"
      unfolding r'
      by (auto simp: employees_build_report set_Array_sort salaryResults_def salary_line_def
          Let_def getInventoryResults_def deduction_zero_loss round2_zero)
    moreover have "totalLoss_i (inventory r) = Fin 0 \<and> revisionsCount_i (inventory r) = 0"
      unfolding r' by (simp add: build_report_def Let_def getInventoryResults_def round2_zero)
    ultimately show "totalLoss_i (inventory r) = Fin 0 \<and> revisionsCount_i (inventory r) = 0
          \<and> (\<forall>l\<in>set (employees r). inventoryDeduction l = Fin 0)" by blast
  qed
  show ?thesis using a b c d f by blast
qed

theorem inventory_failure_is_neutral_witness:
  "map_sum id employees
     (calculateSalaries (example_params 500 10) ex3_employees ex3_transactions (Inl RequestFailed))
     = Inr [ex3_line 2 ''B'' 300 30 530, ex3_line 1 ''A'' 100 10 510, ex3_line 3 ''C'' 100 10 510]
   \<and> map_sum id (totalLoss_i \<circ> inventory)
       (calculateSalaries (example_params 500 10) ex3_employees ex3_transactions (Inl RequestFailed))
       = Inr (Fin 0)
   \<and> inventoryDeduction (ex3_line 2 ''B'' 300 30 530) = Fin 0"
proof -
  have ev: "map_sum id employees
     (calculateSalaries (example_params 500 10) ex3_employees ex3_transactions (Inl RequestFailed))
     = Inr [ex3_line 2 ''B'' 300 30 530, ex3_line 1 ''A'' 100 10 510, ex3_line 3 ''C'' 100 10 510]"
    by code_simp
  then obtain r where r: "calculateSalaries (example_params 500 10) ex3_employees ex3_transactions
      (Inl RequestFailed) = Inr r"
    and es: "employees r = [ex3_line 2 ''B'' 300 30 530, ex3_line 1 ''A'' 100 10 510,
                            ex3_line 3 ''C'' 100 10 510]"
    by (cases "calculateSalaries (example_params 500 10) ex3_employees ex3_transactions
      (Inl RequestFailed)") auto
  have "totalLoss_i (inventory r) = Fin 0 \<and> (\<forall>l\<in>set (employees r). inventoryDeduction l = Fin 0)"
    using inventory_failure_is_neutral [of RequestFailed None None "example_params 500 10"
        ex3_employees ex3_transactions] r by blast
  then show ?thesis using ev r es by simp
qed

section \<open>Proportional allocation of the inventory shortage\<close>












section \<open>Grouping the transactions by employee\<close>



declare tx_step.simps [simp del]


















section \<open>Revenue and shifts of the groups\<close>









section \<open>Missing and malformed totals\<close>







section \<open>Identifiers of the aggregates\<close>

















end
